theory Spec2Isabelle
  imports Complex_Main
begin

section \<open>JavaScript values\<close>

text \<open>
  The services exchange plain JavaScript values with the backend client: rows, error
  objects, result objects. An object is an association list of its own properties in
  insertion order (the first entry of a key is the one read). Numbers are rationals,
  plus \<open>NaN\<close>; the rounding of doubles and the infinities are not modelled.
\<close>

datatype jsval =
    Undefined
  | Null
  | Bool bool
  | Num rat
  | NaN
  | Str string
  | Arr "jsval list"
  | Obj "(string \<times> jsval) list"

text \<open>Truthiness, as \<open>if (v)\<close>, \<open>!v\<close> and \<open>v || w\<close> test it.\<close>

fun truthy :: "jsval \<Rightarrow> bool" where
  "truthy Undefined = False"
| "truthy Null = False"
| "truthy (Bool b) = b"
| "truthy (Num r) = (r \<noteq> 0)"
| "truthy NaN = False"
| "truthy (Str s) = (s \<noteq> [])"
| "truthy (Arr xs) = True"
| "truthy (Obj kvs) = True"

text \<open>
  \<open>v?.k\<close> for a data property \<open>k\<close>: \<open>undefined\<close> on \<open>undefined\<close> and \<open>null\<close>
  (optional chaining), the own property of an object, and \<open>undefined\<close> where there is
  none (the property names read by the services are no built-in ones of strings, numbers
  or arrays).
\<close>

fun getprop :: "jsval \<Rightarrow> string \<Rightarrow> jsval" where
  "getprop (Obj kvs) k = (case map_of kvs k of Some v \<Rightarrow> v | None \<Rightarrow> Undefined)"
| "getprop v k = Undefined"

fun has_field :: "jsval \<Rightarrow> string \<Rightarrow> bool" where
  "has_field (Obj kvs) k = (map_of kvs k \<noteq> None)"
| "has_field v k = False"

definition js_or :: "jsval \<Rightarrow> jsval \<Rightarrow> jsval" where
  "js_or a b = (if truthy a then a else b)"

definition nullish :: "jsval \<Rightarrow> bool" where
  "nullish v = (v = Undefined \<or> v = Null)"

definition is_array :: "jsval \<Rightarrow> bool" where
  "is_array v = (case v of Arr xs \<Rightarrow> True | _ \<Rightarrow> False)"

text \<open>The result objects the services build, with their keys in the source's order.\<close>

definition res3 :: "bool \<Rightarrow> jsval \<Rightarrow> jsval \<Rightarrow> jsval" where
  "res3 s d e = Obj [(''success'', Bool s), (''data'', d), (''error'', e)]"

definition res2 :: "bool \<Rightarrow> jsval \<Rightarrow> jsval" where
  "res2 s e = Obj [(''success'', Bool s), (''error'', e)]"

section \<open>The backend client and the runtime\<close>

text \<open>
  A call of the query builder \<open>supabase.from(table)\<close> is the list of the builder
  methods applied, in order. The select lists are written with their whitespace
  collapsed.
\<close>

datatype qop =
    Select string
  | SelectRows
  | Insert jsval
  | Update jsval
  | Delete
  | Eq string jsval
  | Ilike string jsval
  | Gte string jsval
  | Lte string jsval
  | Range jsval jsval
  | Order string bool
  | Single

text \<open>
  Everything a service awaits: a method of \<open>supabase.auth\<close> with its arguments, a
  query on a table, an HTTP \<open>fetch\<close> with its headers, the \<open>json()\<close> of a response,
  and a method of \<open>UpstoxService\<close> (whose code is not part of the sources at hand).
\<close>

datatype request =
    Auth string "jsval list"
  | Db string "qop list"
  | Fetch string "(string \<times> jsval) list"
  | Json string
  | Upstox string

text \<open>An awaited call resolves to a value or rejects with an \<open>Error\<close> of some message.\<close>

datatype outcome = Throws string | Returns jsval

text \<open>
  The world a service runs in. \<open>respond\<close> answers a request, given the requests issued
  before it, so that the same request may be answered differently the second time. The
  remaining fields are what the services read from the runtime and from the libraries
  they import: the clock, the page's origin, the message of the engine's
  \<open>TypeError\<close>, the key and the cipher of \<open>CryptoJS.AES\<close> (with the salt it draws),
  \<open>JSON.stringify\<close> and \<open>JSON.parse\<close> (\<open>None\<close> where they throw), the string
  of a value that is no string, what an operator (named by its symbol) does on operands
  that are no numbers, \<open>parseInt\<close>, and \<open>parseFloat\<close> of what is no number.
\<close>

record env =
  respond :: "request list \<Rightarrow> request \<Rightarrow> outcome"
  now :: string
  origin :: string
  type_error :: string
  ENCRYPTION_KEY :: string
  aes_encrypt :: "string \<Rightarrow> string \<Rightarrow> string"
  aes_decrypt_utf8 :: "jsval \<Rightarrow> string \<Rightarrow> string option"
  json_stringify :: "jsval \<Rightarrow> string option"
  json_parse :: "string \<Rightarrow> jsval option"
  string_of :: "jsval \<Rightarrow> string"
  coerced :: "string \<Rightarrow> jsval \<Rightarrow> jsval \<Rightarrow> jsval"
  parse_int :: "jsval \<Rightarrow> jsval"
  parse_float_coerced :: "jsval \<Rightarrow> jsval"

text \<open>
  A computation takes the requests issued so far and returns them extended, with either
  the message of the exception it threw (\<open>Inl\<close>) or its value (\<open>Inr\<close>).
\<close>

type_synonym 'a io = "request list \<Rightarrow> (string + 'a) \<times> request list"

definition ret :: "'a \<Rightarrow> 'a io" where
  "ret x = (\<lambda>t. (Inr x, t))"

definition throw :: "string \<Rightarrow> 'a io" where
  "throw m = (\<lambda>t. (Inl m, t))"

definition bind :: "'a io \<Rightarrow> ('a \<Rightarrow> 'b io) \<Rightarrow> 'b io" where
  "bind m f = (\<lambda>t. case m t of (Inl e, t') \<Rightarrow> (Inl e, t') | (Inr x, t') \<Rightarrow> f x t')"

definition try_catch :: "'a io \<Rightarrow> (string \<Rightarrow> 'a io) \<Rightarrow> 'a io" where
  "try_catch m h = (\<lambda>t. case m t of (Inl e, t') \<Rightarrow> h e t' | (Inr x, t') \<Rightarrow> (Inr x, t'))"

definition await :: "env \<Rightarrow> request \<Rightarrow> jsval io" where
  "await w r = (\<lambda>t. (case respond w t r of Throws m \<Rightarrow> Inl m | Returns v \<Rightarrow> Inr v, t @ [r]))"

text \<open>\<open>const { a, b } = v\<close>: a \<open>TypeError\<close> on \<open>undefined\<close> and \<open>null\<close>.\<close>

definition destructure :: "env \<Rightarrow> jsval \<Rightarrow> string \<Rightarrow> string \<Rightarrow> (jsval \<times> jsval) io" where
  "destructure w v a b =
     (if nullish v then throw (type_error w) else ret (getprop v a, getprop v b))"

text \<open>
  Template literals and \<open>+\<close>, \<open>-\<close>, \<open>>\<close>: what they do on strings and numbers is
  written out, the coercion of any other operand is the runtime's.
\<close>

definition js_string :: "env \<Rightarrow> jsval \<Rightarrow> string" where
  "js_string w v =
     (case v of
        Str s \<Rightarrow> s
      | Undefined \<Rightarrow> ''undefined''
      | Null \<Rightarrow> ''null''
      | Bool b \<Rightarrow> (if b then ''true'' else ''false'')
      | NaN \<Rightarrow> ''NaN''
      | _ \<Rightarrow> string_of w v)"

definition js_plus :: "env \<Rightarrow> jsval \<Rightarrow> jsval \<Rightarrow> jsval" where
  "js_plus w a b =
     (case (a, b) of
        (Num x, Num y) \<Rightarrow> Num (x + y)
      | (Str x, Str y) \<Rightarrow> Str (x @ y)
      | _ \<Rightarrow> coerced w ''+'' a b)"

definition js_minus :: "env \<Rightarrow> jsval \<Rightarrow> jsval \<Rightarrow> jsval" where
  "js_minus w a b =
     (case (a, b) of
        (Num x, Num y) \<Rightarrow> Num (x - y)
      | _ \<Rightarrow> coerced w ''-'' a b)"








text \<open>
  \<open>{...v, k: x}\<close>: the own enumerable properties of \<open>v\<close> (none for \<open>undefined\<close>,
  \<open>null\<close>, booleans and numbers; the indices for an array or a string), then \<open>k\<close>
  set, in place where \<open>v\<close> has it already.
\<close>

fun decimal :: "nat \<Rightarrow> string" where
  "decimal n =
     (if n < 10 then [char_of (48 + n)] else decimal (n div 10) @ [char_of (48 + n mod 10)])"

definition spread :: "jsval \<Rightarrow> (string \<times> jsval) list" where
  "spread v =
     (case v of
        Obj kvs \<Rightarrow> kvs
      | Arr xs \<Rightarrow> zip (map decimal [0 ..< length xs]) xs
      | Str s \<Rightarrow> zip (map decimal [0 ..< length s]) (map (\<lambda>c. Str [c]) s)
      | _ \<Rightarrow> [])"

fun put :: "(string \<times> jsval) list \<Rightarrow> string \<Rightarrow> jsval \<Rightarrow> (string \<times> jsval) list" where
  "put [] k v = [(k, v)]"
| "put ((k', v') # kvs) k v = (if k' = k then (k, v) # kvs else (k', v') # put kvs k v)"

definition destructure1 :: "env \<Rightarrow> jsval \<Rightarrow> string \<Rightarrow> jsval io" where
  "destructure1 w v a = (if nullish v then throw (type_error w) else ret (getprop v a))"

definition lift :: "string + 'a \<Rightarrow> 'a io" where
  "lift r = (case r of Inl m \<Rightarrow> throw m | Inr x \<Rightarrow> ret x)"

section \<open>TradingService: the list reads\<close>

definition getTradingAccounts :: "env \<Rightarrow> jsval io" where
  "getTradingAccounts w =
     try_catch
       (bind (await w (Db ''trading_accounts''
                [Select ''*, brokers (name, status)'', Eq ''is_active'' (Bool True),
                 Order ''created_at'' False]))
          (\<lambda>resp. bind (destructure w resp ''data'' ''error'')
             (\<lambda>(data, error).
                if truthy error then ret (res3 False (Arr []) (getprop error ''message''))
                else ret (res3 True (js_or data (Arr [])) Null))))
       (\<lambda>e. ret (res3 False (Arr []) (Str ''Failed to fetch trading accounts'')))"

definition getTrades :: "env \<Rightarrow> jsval \<Rightarrow> jsval io" where
  "getTrades w filters =
     try_catch
       (let query = [Select ''*, trading_accounts (account_name, brokers (name))''];
            query = (if truthy (getprop filters ''status'')
                     then query @ [Eq ''status'' (getprop filters ''status'')] else query);
            query = (if truthy (getprop filters ''symbol'')
                     then query @ [Ilike ''symbol''
                            (Str (''%'' @ js_string w (getprop filters ''symbol'') @ ''%''))]
                     else query);
            query = (if truthy (getprop filters ''dateFrom'')
                     then query @ [Gte ''opened_at'' (getprop filters ''dateFrom'')] else query);
            query = (if truthy (getprop filters ''dateTo'')
                     then query @ [Lte ''opened_at'' (getprop filters ''dateTo'')] else query);
            limit = js_or (getprop filters ''limit'') (Num 50);
            offset = js_or (getprop filters ''offset'') (Num 0);
            query = query @ [Range offset (js_minus w (js_plus w offset limit) (Num 1))];
            query = query @ [Order ''opened_at'' False]
        in bind (await w (Db ''trades'' query))
          (\<lambda>resp. bind (destructure w resp ''data'' ''error'')
             (\<lambda>(data, error).
                if truthy error then ret (res3 False (Arr []) (getprop error ''message''))
                else ret (res3 True (js_or data (Arr [])) Null))))
       (\<lambda>e. ret (res3 False (Arr []) (Str ''Failed to fetch trades'')))"

definition getAnalyticsData :: "env \<Rightarrow> jsval \<Rightarrow> jsval io" where
  "getAnalyticsData w filters =
     try_catch
       (let query = [Select ''*''];
            query = (if truthy (getprop filters ''dateFrom'')
                     then query @ [Gte ''date'' (getprop filters ''dateFrom'')] else query);
            query = (if truthy (getprop filters ''dateTo'')
                     then query @ [Lte ''date'' (getprop filters ''dateTo'')] else query);
            query = query @ [Order ''date'' True]
        in bind (await w (Db ''analytics_data'' query))
          (\<lambda>resp. bind (destructure w resp ''data'' ''error'')
             (\<lambda>(data, error).
                if truthy error then ret (res3 False (Arr []) (getprop error ''message''))
                else ret (res3 True (js_or data (Arr [])) Null))))
       (\<lambda>e. ret (res3 False (Arr []) (Str ''Failed to fetch analytics data'')))"

definition getBrokers :: "env \<Rightarrow> jsval io" where
  "getBrokers w =
     try_catch
       (bind (await w (Db ''brokers'' [Select ''*'', Order ''created_at'' False]))
          (\<lambda>resp. bind (destructure w resp ''data'' ''error'')
             (\<lambda>(data, error).
                if truthy error then ret (res3 False (Arr []) (getprop error ''message''))
                else ret (res3 True (js_or data (Arr [])) Null))))
       (\<lambda>e. ret (res3 False (Arr []) (Str ''Failed to fetch brokers'')))"

definition getStrategies :: "env \<Rightarrow> jsval io" where
  "getStrategies w =
     try_catch
       (bind (await w (Db ''strategies''
                [Select ''*'', Eq ''is_active'' (Bool True), Order ''created_at'' False]))
          (\<lambda>resp. bind (destructure w resp ''data'' ''error'')
             (\<lambda>(data, error).
                if truthy error then ret (res3 False (Arr []) (getprop error ''message''))
                else ret (res3 True (js_or data (Arr [])) Null))))
       (\<lambda>e. ret (res3 False (Arr []) (Str ''Failed to fetch strategies'')))"

section \<open>BrokerCredentialService: credentials\<close>

text \<open>
  \<open>encrypt\<close> and \<open>decrypt\<close> are synchronous and throw: \<open>Inl\<close> is the message of the
  \<open>Error\<close> thrown.
\<close>

definition encrypt :: "env \<Rightarrow> jsval \<Rightarrow> string + string" where
  "encrypt w d =
     (case json_stringify w d of
        None \<Rightarrow> Inl ''Failed to encrypt credentials''
      | Some s \<Rightarrow> Inr (aes_encrypt w s (ENCRYPTION_KEY w)))"

definition decrypt :: "env \<Rightarrow> jsval \<Rightarrow> string + jsval" where
  "decrypt w encryptedData =
     (case aes_decrypt_utf8 w encryptedData (ENCRYPTION_KEY w) of
        None \<Rightarrow> Inl ''Failed to decrypt credentials''
      | Some s \<Rightarrow>
          (case json_parse w s of
             None \<Rightarrow> Inl ''Failed to decrypt credentials''
           | Some v \<Rightarrow> Inr v))"

definition getBrokerCredentials :: "env \<Rightarrow> jsval \<Rightarrow> jsval io" where
  "getBrokerCredentials w brokerId =
     try_catch
       (bind (await w (Auth ''getUser'' []))
          (\<lambda>resp. bind (destructure1 w resp ''data'')
             (\<lambda>user.
                if \<not> truthy (getprop user ''user'')
                then ret (res2 False (Str ''User not authenticated''))
                else bind (await w (Db ''brokers''
                             [Select ''*'', Eq ''id'' brokerId,
                              Eq ''user_profile_id'' (getprop (getprop user ''user'') ''id''),
                              Single]))
                  (\<lambda>resp. bind (destructure w resp ''data'' ''error'')
                     (\<lambda>(data, error).
                        if truthy error then ret (res2 False (getprop error ''message''))
                        else if \<not> truthy (getprop data ''api_key'')
                        then ret (res2 False (Str ''No credentials found''))
                        else bind (lift (decrypt w (getprop data ''api_key'')))
                          (\<lambda>decryptedCredentials.
                             ret (res3 True
                                    (Obj (put (spread data) ''credentials'' decryptedCredentials))
                                    Null)))))))
       (\<lambda>e. ret (res2 False (Str ''Failed to retrieve credentials'')))"

section \<open>BrokerCredentialService: storing, testing and deleting\<close>












section \<open>TradingService: broker synchronisation\<close>

definition syncZerodhaData :: "env \<Rightarrow> jsval \<Rightarrow> jsval io" where
  "syncZerodhaData w brokerId =
     try_catch
       (bind (getBrokerCredentials w brokerId)
          (\<lambda>credentialsResult.
             if \<not> truthy (getprop credentialsResult ''success'') then ret credentialsResult
             else bind (destructure1 w (getprop credentialsResult ''data'') ''credentials'')
               (\<lambda>credentials.
                  bind (await w (Fetch ''https://api.kite.trade/portfolio/positions''
                          [(''Authorization'',
                            Str (''token '' @ js_string w (getprop credentials ''apiKey'') @ '':''
                                 @ js_string w (getprop credentials ''apiSecret''))),
                           (''X-Kite-Version'', Str ''3'')]))
                    (\<lambda>response.
                       if \<not> truthy (getprop response ''ok'')
                       then ret (res2 False (Str ''Failed to fetch Zerodha data''))
                       else bind (await w (Json ''https://api.kite.trade/portfolio/positions''))
                         (\<lambda>data. ret (res3 True (Obj [(''importedCount'', Num 0)]) Null))))))
       (\<lambda>e. ret (res3 False Null (Str ''Failed to sync Zerodha data'')))"

definition syncInteractiveBrokersData :: "env \<Rightarrow> jsval \<Rightarrow> jsval io" where
  "syncInteractiveBrokersData w brokerId =
     try_catch
       (bind (getBrokerCredentials w brokerId)
          (\<lambda>credentialsResult.
             if \<not> truthy (getprop credentialsResult ''success'') then ret credentialsResult
             else ret (res3 True (Obj [(''importedCount'', Num 0)]) Null)))
       (\<lambda>e. ret (res3 False Null (Str ''Failed to sync Interactive Brokers data'')))"

definition syncAlpacaData :: "env \<Rightarrow> jsval \<Rightarrow> jsval io" where
  "syncAlpacaData w brokerId =
     try_catch
       (bind (getBrokerCredentials w brokerId)
          (\<lambda>credentialsResult.
             if \<not> truthy (getprop credentialsResult ''success'') then ret credentialsResult
             else bind (destructure1 w (getprop credentialsResult ''data'') ''credentials'')
               (\<lambda>credentials.
                  bind (await w (Fetch ''https://paper-api.alpaca.markets/v2/positions''
                          [(''APCA-API-KEY-ID'', getprop credentials ''apiKey''),
                           (''APCA-API-SECRET-KEY'', getprop credentials ''apiSecret'')]))
                    (\<lambda>response.
                       if \<not> truthy (getprop response ''ok'')
                       then ret (res2 False (Str ''Failed to fetch Alpaca data''))
                       else bind (await w (Json ''https://paper-api.alpaca.markets/v2/positions''))
                         (\<lambda>data. ret (res3 True (Obj [(''importedCount'', Num 0)]) Null))))))
       (\<lambda>e. ret (res3 False Null (Str ''Failed to sync Alpaca data'')))"

record sync_results =
  upstox :: jsval
  zerodha :: jsval
  interactive :: jsval
  alpaca :: jsval
  totalImported :: jsval
  errors :: "string list"









section \<open>TradingService: trades and the portfolio summary\<close>




section \<open>TradingService: changing trades, adding brokers, broker status\<close>











section \<open>AuthService\<close>












section \<open>The operations of the three services\<close>



section \<open>What the claims are stated with\<close>

text \<open>
  The five list reads share one shape: a single query, then the response mapped to a
  result. \<open>list_read_result\<close> is that mapping, for the outcome of the query and the
  message of the read's handler.
\<close>

definition list_read_result :: "outcome \<Rightarrow> string \<Rightarrow> jsval" where
  "list_read_result out msg =
     (case out of
        Throws m \<Rightarrow> res3 False (Arr []) (Str msg)
      | Returns resp \<Rightarrow>
          if nullish resp then res3 False (Arr []) (Str msg)
          else if truthy (getprop resp ''error'')
          then res3 False (Arr []) (getprop (getprop resp ''error'') ''message'')
          else res3 True (js_or (getprop resp ''data'') (Arr [])) Null)"


definition is_text :: "jsval \<Rightarrow> bool" where
  "is_text v = (case v of Str s \<Rightarrow> True | _ \<Rightarrow> False)"





definition forwarded_analytics_query :: "jsval \<Rightarrow> qop list" where
  "forwarded_analytics_query filters =
     [Select ''*'']
     @ (if truthy (getprop filters ''dateFrom'')
        then [Gte ''date'' (getprop filters ''dateFrom'')] else [])
     @ (if truthy (getprop filters ''dateTo'')
        then [Lte ''date'' (getprop filters ''dateTo'')] else [])
     @ [Order ''date'' True]"

text \<open>
  The \<open>data\<close> field of what a service returned (\<open>undefined\<close> had it thrown), and
  the outcomes of a query that are failures for a list read: a rejected call, no response
  object, an error in the response, or no rows.
\<close>

definition data_of :: "(string + jsval) \<times> request list \<Rightarrow> jsval" where
  "data_of out = (case fst out of Inl e \<Rightarrow> Undefined | Inr r \<Rightarrow> getprop r ''data'')"

definition failure_outcome :: "outcome \<Rightarrow> bool" where
  "failure_outcome out =
     (case out of
        Throws m \<Rightarrow> True
      | Returns resp \<Rightarrow>
          nullish resp \<or> truthy (getprop resp ''error'') \<or> \<not> truthy (getprop resp ''data''))"

text \<open>
  The requests a computation adds to the log, and the requests that write rows of a
  table.
\<close>

definition issued :: "'a io \<Rightarrow> request list \<Rightarrow> request list" where
  "issued m t = drop (length t) (snd (m t))"

fun is_write_op :: "qop \<Rightarrow> bool" where
  "is_write_op (Insert v) = True"
| "is_write_op (Update v) = True"
| "is_write_op Delete = True"
| "is_write_op q = False"






definition user_response :: "jsval \<Rightarrow> jsval" where
  "user_response user = Obj [(''data'', Obj [(''user'', user)]), (''error'', Null)]"



text \<open>
  The broker sync functions: the query for a broker's row, the two remote calls with
  their headers, when the stored credentials are retrievable (\<open>getBrokerCredentials\<close>
  succeeds), when a remote fetch succeeds (the response is \<open>ok\<close> and its body is read),
  and the result of a stub.
\<close>

definition credentials_query :: "jsval \<Rightarrow> jsval \<Rightarrow> request" where
  "credentials_query brokerId uid =
     Db ''brokers'' [Select ''*'', Eq ''id'' brokerId, Eq ''user_profile_id'' uid, Single]"

definition zerodha_url :: string where
  "zerodha_url = ''https://api.kite.trade/portfolio/positions''"

definition alpaca_url :: string where
  "alpaca_url = ''https://paper-api.alpaca.markets/v2/positions''"

definition zerodha_headers :: "env \<Rightarrow> jsval \<Rightarrow> (string \<times> jsval) list" where
  "zerodha_headers w credentials =
     [(''Authorization'',
       Str (''token '' @ js_string w (getprop credentials ''apiKey'') @ '':''
            @ js_string w (getprop credentials ''apiSecret''))),
      (''X-Kite-Version'', Str ''3'')]"

definition alpaca_headers :: "jsval \<Rightarrow> (string \<times> jsval) list" where
  "alpaca_headers credentials =
     [(''APCA-API-KEY-ID'', getprop credentials ''apiKey''),
      (''APCA-API-SECRET-KEY'', getprop credentials ''apiSecret'')]"

definition credentials_retrievable :: "env \<Rightarrow> jsval \<Rightarrow> request list \<Rightarrow> bool" where
  "credentials_retrievable w brokerId t =
     (case fst (getBrokerCredentials w brokerId t) of
        Inl e \<Rightarrow> False
      | Inr r \<Rightarrow> truthy (getprop r ''success''))"

definition retrieved_credentials :: "env \<Rightarrow> jsval \<Rightarrow> request list \<Rightarrow> jsval" where
  "retrieved_credentials w brokerId t =
     (case fst (getBrokerCredentials w brokerId t) of
        Inl e \<Rightarrow> Undefined
      | Inr r \<Rightarrow> getprop (getprop r ''data'') ''credentials'')"

definition fetch_succeeds ::
    "env \<Rightarrow> request list \<Rightarrow> string \<Rightarrow> (string \<times> jsval) list \<Rightarrow> bool" where
  "fetch_succeeds w t url headers =
     (case respond w t (Fetch url headers) of
        Throws m \<Rightarrow> False
      | Returns response \<Rightarrow>
          truthy (getprop response ''ok'')
          \<and> (case respond w (t @ [Fetch url headers]) (Json url) of
                Throws m \<Rightarrow> False
              | Returns body \<Rightarrow> True))"

definition stub_result :: jsval where
  "stub_result = res3 True (Obj [(''importedCount'', Num 0)]) Null"

definition writes :: "request \<Rightarrow> bool" where
  "writes r = (case r of Db tbl ops \<Rightarrow> list_ex is_write_op ops | _ \<Rightarrow> False)"












text \<open>
  The shape every result has: a \<open>success\<close> and an \<open>error\<close> field, with \<open>success\<close>
  true and \<open>error\<close> null, or \<open>success\<close> false and \<open>error\<close> a message. A world is
  well behaved when every error object of a response carries a message that is a string,
  and the Upstox import imports nothing. In any world a result has the two fields; in a
  well behaved one it has the shape.
\<close>

definition shaped :: "jsval \<Rightarrow> bool" where
  "shaped r =
     (has_field r ''success'' \<and> has_field r ''error''
      \<and> (getprop r ''success'' = Bool True \<and> getprop r ''error'' = Null
         \<or> getprop r ''success'' = Bool False \<and> is_text (getprop r ''error'')))"











definition sample_filters :: jsval where
  "sample_filters =
     Obj [(''status'', Str ''open''), (''symbol'', Str ''AAPL''), (''dateFrom'', Str []),
          (''dateTo'', Str ''2024-06-30''), (''limit'', Num 10)]"

text \<open>
  Worlds to run the services in: \<open>world_of f\<close> answers requests by \<open>f\<close>; its cipher
  reverses the text, and its JSON knows one credential object.
\<close>

definition sample_credentials :: jsval where
  "sample_credentials = Obj [(''apiKey'', Str ''ak''), (''apiSecret'', Str ''as'')]"

definition world_of :: "(request list \<Rightarrow> request \<Rightarrow> outcome) \<Rightarrow> env" where
  "world_of f =
     \<lparr>respond = f, now = ''2024-01-01T00:00:00.000Z'', origin = ''https://app.example'',
      type_error = ''TypeError'', ENCRYPTION_KEY = ''default-encryption-key-change-me'',
      aes_encrypt = (\<lambda>s k. rev s),
      aes_decrypt_utf8 = (\<lambda>c k. case c of Str s \<Rightarrow> Some (rev s) | _ \<Rightarrow> None),
      json_stringify = (\<lambda>v. if v = sample_credentials then Some ''{}'' else None),
      json_parse = (\<lambda>s. if s = ''{}'' then Some sample_credentials else None),
      string_of = (\<lambda>v. ''?''),
      coerced = (\<lambda>operator a b. NaN),
      parse_int = (\<lambda>v. v),
      parse_float_coerced = (\<lambda>v. NaN)\<rparr>"

definition rows_response :: "jsval list \<Rightarrow> jsval" where
  "rows_response rows = Obj [(''data'', Arr rows), (''error'', Null)]"

definition error_response :: "string \<Rightarrow> jsval" where
  "error_response m = Obj [(''data'', Null), (''error'', Obj [(''message'', Str m)])]"


definition broker_row :: jsval where
  "broker_row =
     Obj [(''id'', Str ''b1''), (''name'', Str ''Zerodha''), (''status'', Str ''active''),
          (''api_key'', Str ''}{'')]"

definition unsupported_row :: jsval where
  "unsupported_row =
     Obj [(''id'', Str ''b2''), (''name'', Str ''MetaTrader 5''), (''status'', Str ''active'')]"

definition broker_backend :: "request list \<Rightarrow> request \<Rightarrow> outcome" where
  "broker_backend t r =
     (case r of
        Auth method args \<Rightarrow> Returns (user_response (Obj [(''id'', Str ''u1'')]))
      | Db table ops \<Rightarrow>
          if Single \<in> set ops
          then Returns (Obj [(''data'', broker_row), (''error'', Null)])
          else Returns (rows_response [broker_row, unsupported_row])
      | Fetch url headers \<Rightarrow> Returns (Obj [(''ok'', Bool True)])
      | Json url \<Rightarrow> Returns (Arr [])
      | Upstox method \<Rightarrow> Returns (Bool False))"


section \<open>Properties of the list reads\<close>

lemma list_read_pattern:
  "try_catch
     (bind (await w r)
        (\<lambda>resp. bind (destructure w resp ''data'' ''error'')
           (\<lambda>(data, error).
              if truthy error then ret (res3 False (Arr []) (getprop error ''message''))
              else ret (res3 True (js_or data (Arr [])) Null))))
     (\<lambda>e. ret (res3 False (Arr []) (Str msg))) t
   = (Inr (list_read_result (respond w t r) msg), t @ [r])"
  by (simp add: try_catch_def bind_def await_def destructure_def ret_def throw_def
      list_read_result_def split: outcome.splits)

lemma getTradingAccounts_run:
  "getTradingAccounts w t =
     (Inr (list_read_result
             (respond w t (Db ''trading_accounts''
                [Select ''*, brokers (name, status)'', Eq ''is_active'' (Bool True),
                 Order ''created_at'' False]))
             ''Failed to fetch trading accounts''),
      t @ [Db ''trading_accounts''
             [Select ''*, brokers (name, status)'', Eq ''is_active'' (Bool True),
              Order ''created_at'' False]])"
  unfolding getTradingAccounts_def by (rule list_read_pattern)

lemma getBrokers_run:
  "getBrokers w t =
     (Inr (list_read_result
             (respond w t (Db ''brokers'' [Select ''*'', Order ''created_at'' False]))
             ''Failed to fetch brokers''),
      t @ [Db ''brokers'' [Select ''*'', Order ''created_at'' False]])"
  unfolding getBrokers_def by (rule list_read_pattern)

lemma getStrategies_run:
  "getStrategies w t =
     (Inr (list_read_result
             (respond w t (Db ''strategies''
                [Select ''*'', Eq ''is_active'' (Bool True), Order ''created_at'' False]))
             ''Failed to fetch strategies''),
      t @ [Db ''strategies''
             [Select ''*'', Eq ''is_active'' (Bool True), Order ''created_at'' False]])"
  unfolding getStrategies_def by (rule list_read_pattern)

lemma getAnalyticsData_run:
  "getAnalyticsData w filters t =
     (Inr (list_read_result
             (respond w t (Db ''analytics_data'' (forwarded_analytics_query filters)))
             ''Failed to fetch analytics data''),
      t @ [Db ''analytics_data'' (forwarded_analytics_query filters)])"
proof -
  have q: "(let query = [Select ''*''];
            query = (if truthy (getprop filters ''dateFrom'')
                     then query @ [Gte ''date'' (getprop filters ''dateFrom'')] else query);
            query = (if truthy (getprop filters ''dateTo'')
                     then query @ [Lte ''date'' (getprop filters ''dateTo'')] else query);
            query = query @ [Order ''date'' True]
        in f query) = f (forwarded_analytics_query filters)" for f :: "qop list \<Rightarrow> jsval io"
    by (simp add: Let_def forwarded_analytics_query_def)
  show ?thesis
    unfolding getAnalyticsData_def by (subst q) (rule list_read_pattern)
qed

lemma getTrades_some_query:
  "\<exists>q. getTrades w filters t =
     (Inr (list_read_result (respond w t (Db ''trades'' q)) ''Failed to fetch trades''),
      t @ [Db ''trades'' q])"
  unfolding getTrades_def Let_def by (rule exI) (rule list_read_pattern)



lemma list_read_result_data:
  assumes "\<forall>resp. out = Returns resp \<longrightarrow>
             is_array (getprop resp ''data'') \<or> \<not> truthy (getprop resp ''data'')"
  shows "is_array (getprop (list_read_result out msg) ''data'')"
  using assms
  by (cases out) (auto simp: list_read_result_def res3_def is_array_def js_or_def)

lemma list_read_result_failure:
  "failure_outcome out \<Longrightarrow> getprop (list_read_result out msg) ''data'' = Arr []"
  by (cases out) (auto simp: list_read_result_def failure_outcome_def res3_def js_or_def)



text \<open>
  C6. \<open>getAnalyticsData\<close> issues one query on \<open>analytics_data\<close>: all columns, the
  lower bound on \<open>date\<close> exactly when \<open>dateFrom\<close> is set, the upper bound exactly when
  \<open>dateTo\<close> is set, ordered by \<open>date\<close> ascending. The rows the backend answers with
  are returned as they are.
\<close>

theorem getAnalyticsData_direct_read:
  "snd (getAnalyticsData w filters t)
     = t @ [Db ''analytics_data'' (forwarded_analytics_query filters)]
   \<and> (\<forall>resp. respond w t (Db ''analytics_data'' (forwarded_analytics_query filters))
             = Returns resp
           \<and> \<not> nullish resp \<and> \<not> truthy (getprop resp ''error'')
           \<and> truthy (getprop resp ''data'')
         \<longrightarrow> fst (getAnalyticsData w filters t) = Inr (res3 True (getprop resp ''data'') Null))"
  by (simp add: getAnalyticsData_run list_read_result_def js_or_def)

theorem getAnalyticsData_direct_read_witness:
  "snd (getAnalyticsData (world_of (\<lambda>t r. Returns (rows_response [Obj [(''win_rate'', Num 60)]])))
          sample_filters [])
     = [Db ''analytics_data''
          [Select ''*'', Lte ''date'' (Str ''2024-06-30''), Order ''date'' True]]
   \<and> fst (getAnalyticsData
            (world_of (\<lambda>t r. Returns (rows_response [Obj [(''win_rate'', Num 60)]])))
            sample_filters [])
     = Inr (res3 True (Arr [Obj [(''win_rate'', Num 60)]]) Null)"
proof -
  have q: "forwarded_analytics_query sample_filters =
          [Select ''*'', Lte ''date'' (Str ''2024-06-30''), Order ''date'' True]"
    by (simp add: forwarded_analytics_query_def sample_filters_def)
  show ?thesis
    using getAnalyticsData_direct_read[of
        "world_of (\<lambda>t r. Returns (rows_response [Obj [(''win_rate'', Num 60)]]))"
        sample_filters "[]"]
    unfolding q
    by (simp add: world_of_def rows_response_def nullish_def)
qed

text \<open>
  C10. Where the backend answers a query with rows or with nothing, the \<open>data\<close> of
  \<open>getTradingAccounts\<close>, \<open>getTrades\<close>, \<open>getAnalyticsData\<close>, \<open>getBrokers\<close> and
  \<open>getStrategies\<close> is an array, whatever the input and the outcome; it is the empty
  array when the call is rejected, when the response carries an error, and when it
  carries no rows.
\<close>

theorem list_reads_return_arrays:
  assumes "\<forall>r resp. respond w t r = Returns resp \<longrightarrow>
             is_array (getprop resp ''data'') \<or> \<not> truthy (getprop resp ''data'')"
  shows "is_array (data_of (getTradingAccounts w t))
    \<and> is_array (data_of (getTrades w filters t))
    \<and> is_array (data_of (getAnalyticsData w filters t))
    \<and> is_array (data_of (getBrokers w t))
    \<and> is_array (data_of (getStrategies w t))
    \<and> (failure_outcome (respond w t (last (snd (getTradingAccounts w t))))
         \<longrightarrow> data_of (getTradingAccounts w t) = Arr [])
    \<and> (failure_outcome (respond w t (last (snd (getTrades w filters t))))
         \<longrightarrow> data_of (getTrades w filters t) = Arr [])
    \<and> (failure_outcome (respond w t (last (snd (getAnalyticsData w filters t))))
         \<longrightarrow> data_of (getAnalyticsData w filters t) = Arr [])
    \<and> (failure_outcome (respond w t (last (snd (getBrokers w t))))
         \<longrightarrow> data_of (getBrokers w t) = Arr [])
    \<and> (failure_outcome (respond w t (last (snd (getStrategies w t))))
         \<longrightarrow> data_of (getStrategies w t) = Arr [])"
proof -
  have arr: "is_array (getprop (list_read_result (respond w t r) msg) ''data'')" for r msg
    using assms by (intro list_read_result_data) blast
  obtain q where q: "getTrades w filters t =
     (Inr (list_read_result (respond w t (Db ''trades'' q)) ''Failed to fetch trades''),
      t @ [Db ''trades'' q])"
    using getTrades_some_query by blast
  show ?thesis
    by (simp add: data_of_def getTradingAccounts_run getAnalyticsData_run getBrokers_run
        getStrategies_run q arr list_read_result_failure)
qed

theorem list_reads_return_arrays_witness:
  "is_array (data_of (getTrades (world_of (\<lambda>t r. Returns (rows_response [Obj [(''id'', Num 1)]])))
                        sample_filters []))
   \<and> is_array (data_of (getBrokers (world_of (\<lambda>t r. Returns (rows_response [Obj [(''id'', Num 1)]])))
                        []))
   \<and> data_of (getStrategies (world_of (\<lambda>t r. Returns (error_response ''timeout''))) [])
       = Arr []"
proof -
  have h: "\<forall>r resp. respond (world_of (\<lambda>t r. Returns (rows_response rows))) [] r = Returns resp
      \<longrightarrow> is_array (getprop resp ''data'') \<or> \<not> truthy (getprop resp ''data'')" for rows
    by (simp add: world_of_def rows_response_def is_array_def)
  have h': "\<forall>r resp. respond (world_of (\<lambda>t r. Returns (error_response ''timeout''))) [] r
        = Returns resp
      \<longrightarrow> is_array (getprop resp ''data'') \<or> \<not> truthy (getprop resp ''data'')"
    by (simp add: world_of_def error_response_def)
  have f: "failure_outcome (respond (world_of (\<lambda>t r. Returns (error_response ''timeout''))) [] r)"
    for r
    by (simp add: world_of_def error_response_def failure_outcome_def)
  show ?thesis
    using list_reads_return_arrays[OF h, of "[Obj [(''id'', Num 1)]]" sample_filters]
      list_reads_return_arrays[OF h', of sample_filters] f
    by simp
qed

section \<open>Properties of createTrade and of the reads' data\<close>











section \<open>Properties of the broker synchronisation\<close>

lemma getBrokerCredentials_cases:
  "\<exists>r. fst (getBrokerCredentials w brokerId t) = Inr r
     \<and> (snd (getBrokerCredentials w brokerId t) = t @ [Auth ''getUser'' []]
        \<or> (\<exists>uid. snd (getBrokerCredentials w brokerId t)
              = t @ [Auth ''getUser'' [], credentials_query brokerId uid]))
     \<and> (truthy (getprop r ''success'') \<longrightarrow>
          (\<exists>kvs. r = res3 True (Obj kvs) Null))"
  by (auto simp: getBrokerCredentials_def try_catch_def bind_def await_def destructure_def
      destructure1_def ret_def throw_def lift_def res2_def res3_def credentials_query_def
      spread_def nullish_def
      split: outcome.splits sum.splits jsval.splits)

lemma getBrokerCredentials_result:
  "\<exists>r new. getBrokerCredentials w brokerId t = (Inr r, t @ new)
     \<and> list_all (\<lambda>q. \<not> writes q) new \<and> length new \<le> 2
     \<and> (truthy (getprop r ''success'') \<longrightarrow> (\<exists>kvs. r = res3 True (Obj kvs) Null))"
proof -
  from getBrokerCredentials_cases[of w brokerId t]
  obtain r where r: "fst (getBrokerCredentials w brokerId t) = Inr r"
    and tr: "snd (getBrokerCredentials w brokerId t) = t @ [Auth ''getUser'' []]
        \<or> (\<exists>uid. snd (getBrokerCredentials w brokerId t)
              = t @ [Auth ''getUser'' [], credentials_query brokerId uid])"
    and s: "truthy (getprop r ''success'') \<longrightarrow> (\<exists>kvs. r = res3 True (Obj kvs) Null)"
    by blast
  from tr obtain new where n: "snd (getBrokerCredentials w brokerId t) = t @ new"
    and w: "list_all (\<lambda>q. \<not> writes q) new" and l: "length new \<le> 2"
    by (auto simp: writes_def credentials_query_def)
  from r n have "getBrokerCredentials w brokerId t = (Inr r, t @ new)"
    by (simp add: prod_eq_iff)
  then show ?thesis using w l s by blast
qed

lemma syncZerodhaData_stub:
  assumes "credentials_retrievable w brokerId t"
    and "fetch_succeeds w (snd (getBrokerCredentials w brokerId t)) zerodha_url
           (zerodha_headers w (retrieved_credentials w brokerId t))"
  shows "fst (syncZerodhaData w brokerId t) = Inr stub_result"
proof -
  obtain r new where g: "getBrokerCredentials w brokerId t = (Inr r, t @ new)"
    and s: "truthy (getprop r ''success'') \<longrightarrow> (\<exists>kvs. r = res3 True (Obj kvs) Null)"
    using getBrokerCredentials_result[of w brokerId t] by blast
  from assms(1) g have ok: "truthy (getprop r ''success'')"
    by (simp add: credentials_retrievable_def)
  with s obtain kvs where r: "r = res3 True (Obj kvs) Null" by blast
  from assms(2) show ?thesis
    unfolding syncZerodhaData_def
    by (auto simp: g r try_catch_def bind_def await_def destructure1_def ret_def throw_def
        res3_def nullish_def fetch_succeeds_def retrieved_credentials_def zerodha_url_def
        zerodha_headers_def stub_result_def split: outcome.splits)
qed

lemma syncAlpacaData_stub:
  assumes "credentials_retrievable w brokerId t"
    and "fetch_succeeds w (snd (getBrokerCredentials w brokerId t)) alpaca_url
           (alpaca_headers (retrieved_credentials w brokerId t))"
  shows "fst (syncAlpacaData w brokerId t) = Inr stub_result"
proof -
  obtain r new where g: "getBrokerCredentials w brokerId t = (Inr r, t @ new)"
    and s: "truthy (getprop r ''success'') \<longrightarrow> (\<exists>kvs. r = res3 True (Obj kvs) Null)"
    using getBrokerCredentials_result[of w brokerId t] by blast
  from assms(1) g have ok: "truthy (getprop r ''success'')"
    by (simp add: credentials_retrievable_def)
  with s obtain kvs where r: "r = res3 True (Obj kvs) Null" by blast
  from assms(2) show ?thesis
    unfolding syncAlpacaData_def
    by (auto simp: g r try_catch_def bind_def await_def destructure1_def ret_def throw_def
        res3_def nullish_def fetch_succeeds_def retrieved_credentials_def alpaca_url_def
        alpaca_headers_def stub_result_def split: outcome.splits)
qed

lemma syncInteractiveBrokersData_stub:
  assumes "credentials_retrievable w brokerId t"
  shows "fst (syncInteractiveBrokersData w brokerId t) = Inr stub_result"
proof -
  obtain r new where g: "getBrokerCredentials w brokerId t = (Inr r, t @ new)"
    using getBrokerCredentials_result[of w brokerId t] by blast
  from assms(1) g have ok: "truthy (getprop r ''success'')"
    by (simp add: credentials_retrievable_def)
  then show ?thesis
    unfolding syncInteractiveBrokersData_def
    by (simp add: g try_catch_def bind_def ret_def stub_result_def)
qed

lemma syncZerodhaData_result:
  "\<exists>r new. syncZerodhaData w brokerId t = (Inr r, t @ new)
     \<and> list_all (\<lambda>q. \<not> writes q) new \<and> length new \<le> 4
     \<and> (truthy (getprop r ''success'') \<longrightarrow> r = stub_result)"
proof -
  obtain r new where g: "getBrokerCredentials w brokerId t = (Inr r, t @ new)"
    and n: "list_all (\<lambda>q. \<not> writes q) new" "length new \<le> 2"
    using getBrokerCredentials_result[of w brokerId t] by blast
  show ?thesis
    unfolding syncZerodhaData_def using n
    by (auto simp: g try_catch_def bind_def await_def destructure1_def ret_def throw_def
        writes_def stub_result_def res2_def res3_def split: outcome.splits)
qed

lemma syncAlpacaData_result:
  "\<exists>r new. syncAlpacaData w brokerId t = (Inr r, t @ new)
     \<and> list_all (\<lambda>q. \<not> writes q) new \<and> length new \<le> 4
     \<and> (truthy (getprop r ''success'') \<longrightarrow> r = stub_result)"
proof -
  obtain r new where g: "getBrokerCredentials w brokerId t = (Inr r, t @ new)"
    and n: "list_all (\<lambda>q. \<not> writes q) new" "length new \<le> 2"
    using getBrokerCredentials_result[of w brokerId t] by blast
  show ?thesis
    unfolding syncAlpacaData_def using n
    by (auto simp: g try_catch_def bind_def await_def destructure1_def ret_def throw_def
        writes_def stub_result_def res2_def res3_def split: outcome.splits)
qed

lemma syncInteractiveBrokersData_result:
  "\<exists>r new. syncInteractiveBrokersData w brokerId t = (Inr r, t @ new)
     \<and> list_all (\<lambda>q. \<not> writes q) new \<and> length new \<le> 2
     \<and> (truthy (getprop r ''success'') \<longrightarrow> r = stub_result)"
proof -
  obtain r new where g: "getBrokerCredentials w brokerId t = (Inr r, t @ new)"
    and n: "list_all (\<lambda>q. \<not> writes q) new" "length new \<le> 2"
    using getBrokerCredentials_result[of w brokerId t] by blast
  show ?thesis
    unfolding syncInteractiveBrokersData_def using n
    by (auto simp: g try_catch_def bind_def ret_def stub_result_def)
qed










lemma no_writes_issued:
  assumes "m t = (x, t @ new)" and "list_all (\<lambda>q. \<not> writes q) new"
  shows "\<not> list_ex writes (issued m t)"
  using assms by (simp add: issued_def list_ex_iff list_all_iff)

text \<open>
  C3. For every broker whose credentials are retrievable, \<open>syncInteractiveBrokersData\<close>
  returns \<open>{success: true, data: {importedCount: 0}, error: null}\<close>, and so do
  \<open>syncZerodhaData\<close> and \<open>syncAlpacaData\<close> when their remote fetch succeeds (the
  response is \<open>ok\<close> and its body is read). None of the three issues a request that
  inserts, updates or deletes a row, of \<open>trades\<close> or of any table.
\<close>

theorem broker_syncs_are_stubs:
  assumes "credentials_retrievable w brokerId t"
  shows "(fetch_succeeds w (snd (getBrokerCredentials w brokerId t)) zerodha_url
            (zerodha_headers w (retrieved_credentials w brokerId t))
          \<longrightarrow> fst (syncZerodhaData w brokerId t) = Inr stub_result)
    \<and> fst (syncInteractiveBrokersData w brokerId t) = Inr stub_result
    \<and> (fetch_succeeds w (snd (getBrokerCredentials w brokerId t)) alpaca_url
            (alpaca_headers (retrieved_credentials w brokerId t))
          \<longrightarrow> fst (syncAlpacaData w brokerId t) = Inr stub_result)
    \<and> \<not> list_ex writes (issued (syncZerodhaData w brokerId) t)
    \<and> \<not> list_ex writes (issued (syncInteractiveBrokersData w brokerId) t)
    \<and> \<not> list_ex writes (issued (syncAlpacaData w brokerId) t)"
proof -
  have z: "\<not> list_ex writes (issued (syncZerodhaData w brokerId) t)"
    using syncZerodhaData_result[of w brokerId t] by (elim exE conjE) (rule no_writes_issued)
  have i: "\<not> list_ex writes (issued (syncInteractiveBrokersData w brokerId) t)"
    using syncInteractiveBrokersData_result[of w brokerId t]
    by (elim exE conjE) (rule no_writes_issued)
  have a: "\<not> list_ex writes (issued (syncAlpacaData w brokerId) t)"
    using syncAlpacaData_result[of w brokerId t] by (elim exE conjE) (rule no_writes_issued)
  show ?thesis
    using assms z i a
    by (simp add: syncZerodhaData_stub syncInteractiveBrokersData_stub syncAlpacaData_stub)
qed

lemma broker_backend_credentials:
  "getBrokerCredentials (world_of broker_backend) (Str ''b1'') []
     = (Inr (res3 True (Obj (put (spread broker_row) ''credentials'' sample_credentials)) Null),
        [Auth ''getUser'' [], credentials_query (Str ''b1'') (Str ''u1'')])"
  by (simp add: getBrokerCredentials_def try_catch_def bind_def await_def destructure_def
      destructure1_def ret_def throw_def lift_def decrypt_def world_of_def broker_backend_def
      user_response_def broker_row_def nullish_def credentials_query_def)

theorem broker_syncs_are_stubs_witness:
  "fst (syncZerodhaData (world_of broker_backend) (Str ''b1'') []) = Inr stub_result
   \<and> fst (syncInteractiveBrokersData (world_of broker_backend) (Str ''b1'') []) = Inr stub_result
   \<and> fst (syncAlpacaData (world_of broker_backend) (Str ''b1'') []) = Inr stub_result
   \<and> \<not> list_ex writes (issued (syncZerodhaData (world_of broker_backend) (Str ''b1'')) [])"
proof -
  have c: "credentials_retrievable (world_of broker_backend) (Str ''b1'') []"
    by (simp add: credentials_retrievable_def broker_backend_credentials res3_def)
  have f: "fetch_succeeds (world_of broker_backend) t url headers" for t url headers
    by (simp add: fetch_succeeds_def world_of_def broker_backend_def)
  show ?thesis
    using broker_syncs_are_stubs[OF c] f by simp
qed




section \<open>The requests and the result of every operation\<close>


















lemma shaped_res2 [simp]:
  "shaped (res2 s e) = (if s then e = Null else is_text e)"
  by (auto simp: shaped_def res2_def)

lemma shaped_res3 [simp]:
  "shaped (res3 s d e) = (if s then e = Null else is_text e)"
  by (auto simp: shaped_def res3_def)

lemma has_field_res2 [simp]: "has_field (res2 s e) k = (k = ''success'' \<or> k = ''error'')"
  by (auto simp: res2_def)

lemma has_field_res3 [simp]:
  "has_field (res3 s d e) k = (k = ''success'' \<or> k = ''data'' \<or> k = ''error'')"
  by (auto simp: res3_def)

lemma is_text_Str [simp]: "is_text (Str s)"
  by (simp add: is_text_def)

lemma is_text_js_or: "\<not> truthy a \<or> is_text a \<Longrightarrow> is_text (js_or a (Str s))"
  by (auto simp: js_or_def)
































































text \<open>
  C2. \<open>decrypt (encrypt d)\<close> returns \<open>d\<close>: both use the one \<open>ENCRYPTION_KEY\<close>, and
  \<open>decrypt\<close> undoes the two steps of \<open>encrypt\<close> in reverse order. \<open>CryptoJS.AES\<close>
  and \<open>JSON\<close> are libraries: the cipher is taken to decrypt what it encrypted under
  the same key, and \<open>d\<close> to be serializable, that is, parsed back from its own JSON
  text.
\<close>

theorem decrypt_encrypt_roundtrip:
  assumes "\<forall>s. aes_decrypt_utf8 w (Str (aes_encrypt w s (ENCRYPTION_KEY w))) (ENCRYPTION_KEY w)
             = Some s"
    and "\<exists>s. json_stringify w d = Some s \<and> json_parse w s = Some d"
  shows "\<exists>c. encrypt w d = Inr c \<and> decrypt w (Str c) = Inr d"
proof -
  from assms(2) obtain s where s: "json_stringify w d = Some s" "json_parse w s = Some d"
    by blast
  have "encrypt w d = Inr (aes_encrypt w s (ENCRYPTION_KEY w))"
    by (simp add: encrypt_def s)
  moreover have "decrypt w (Str (aes_encrypt w s (ENCRYPTION_KEY w))) = Inr d"
    using assms(1) by (simp add: decrypt_def s)
  ultimately show ?thesis by blast
qed

theorem decrypt_encrypt_roundtrip_witness:
  "encrypt (world_of broker_backend) sample_credentials = Inr ''}{''
   \<and> decrypt (world_of broker_backend) (Str ''}{'') = Inr sample_credentials"
proof -
  have c: "\<forall>s. aes_decrypt_utf8 (world_of broker_backend)
             (Str (aes_encrypt (world_of broker_backend) s (ENCRYPTION_KEY (world_of broker_backend))))
             (ENCRYPTION_KEY (world_of broker_backend)) = Some s"
    by (simp add: world_of_def)
  have j: "\<exists>s. json_stringify (world_of broker_backend) sample_credentials = Some s
      \<and> json_parse (world_of broker_backend) s = Some sample_credentials"
    by (simp add: world_of_def)
  have e: "encrypt (world_of broker_backend) sample_credentials = Inr ''}{''"
    by (simp add: encrypt_def world_of_def)
  from decrypt_encrypt_roundtrip[OF c j] e show ?thesis by auto
qed

end
